theory Spec2Isabelle
  imports Main
begin

section \<open>JavaScript primitives used by the library\<close>

text \<open>
  The library is TypeScript. Numbers that occur (array indices, column counts) are
  integers and are modelled by \<open>int\<close>; the index \<open>-1\<close> of \<open>indexOf\<close> and
  \<open>findIndex\<close> is kept as it is. \<open>undefined\<close> is \<open>None\<close> of an option type.
  A \<open>Record<string, T>\<close> is a map from its own keys to values; properties inherited
  from \<open>Object.prototype\<close> are not modelled, so breakpoints are assumed not to be named
  like one of them (\<open>constructor\<close>, \<open>toString\<close>, ...).
\<close>

text \<open>\<open>Array.prototype.findIndex\<close>: position of the first element satisfying the
  predicate, \<open>-1\<close> when there is none.\<close>

fun findIndex :: "('a \<Rightarrow> bool) \<Rightarrow> 'a list \<Rightarrow> int" where
  "findIndex p [] = -1"
| "findIndex p (x # xs) =
     (if p x then 0
      else (if findIndex p xs = -1 then -1 else findIndex p xs + 1))"

text \<open>\<open>Array.prototype.indexOf\<close> on strings (strict equality).\<close>

definition indexOf :: "string list \<Rightarrow> string \<Rightarrow> int" where
  "indexOf xs x = findIndex (\<lambda>y. y = x) xs"

text \<open>\<open>xs[i]\<close>: \<open>undefined\<close> outside the array.\<close>

definition at :: "'a list \<Rightarrow> int \<Rightarrow> 'a option" where
  "at xs i = (if 0 \<le> i \<and> i < int (length xs) then Some (xs ! nat i) else None)"

text \<open>\<open>Array.prototype.slice(start, end)\<close>: a negative index counts from the end, and
  both indices are clamped to the array.\<close>

definition relIndex :: "nat \<Rightarrow> int \<Rightarrow> nat" where
  "relIndex len i = (if i < 0 then nat (max (int len + i) 0) else nat (min i (int len)))"

definition slice :: "'a list \<Rightarrow> int \<Rightarrow> int \<Rightarrow> 'a list" where
  "slice xs start end' =
     drop (relIndex (length xs) start) (take (relIndex (length xs) end') xs)"

text \<open>\<open>Array.prototype.join(sep)\<close> on strings.\<close>

fun join :: "string \<Rightarrow> string list \<Rightarrow> string" where
  "join sep [] = []"
| "join sep [x] = x"
| "join sep (x # y # ys) = x @ sep @ join sep (y # ys)"

text \<open>Decimal notation of an integer, as a template literal \<open>${n}\<close> prints it
  (integers below \<open>10^21\<close>, which JavaScript prints without an exponent).\<close>

definition digit :: "nat \<Rightarrow> char" where
  "digit d = ''0123456789'' ! d"

function show_nat :: "nat \<Rightarrow> string" where
  "show_nat n = (if n < 10 then [digit n] else show_nat (n div 10) @ [digit (n mod 10)])"
  by pat_completeness auto
termination
  by (relation "measure id") auto

declare show_nat.simps [simp del]

definition show_int :: "int \<Rightarrow> string" where
  "show_int n = (if n < 0 then ''-'' @ show_nat (nat (- n)) else show_nat (nat n))"

text \<open>A template literal prints \<open>undefined\<close> as the word.\<close>

definition template_str :: "string option \<Rightarrow> string" where
  "template_str s = (case s of None \<Rightarrow> ''undefined'' | Some t \<Rightarrow> t)"

text \<open>Truthiness (\<open>ToBoolean\<close>) at the three value types the library resolves:
  strings (gap tokens), numbers (column counts) and arrays (line pairs); \<open>undefined\<close> is
  falsy at every type.\<close>

definition truthy_string :: "string \<Rightarrow> bool" where
  "truthy_string s = (s \<noteq> [])"

definition truthy_number :: "int \<Rightarrow> bool" where
  "truthy_number n = (n \<noteq> 0)"

definition truthy_array :: "'a list \<Rightarrow> bool" where
  "truthy_array xs = True"

definition truthy_opt :: "('a \<Rightarrow> bool) \<Rightarrow> 'a option \<Rightarrow> bool" where
  "truthy_opt truthy v = (case v of None \<Rightarrow> False | Some x \<Rightarrow> truthy x)"


section \<open>utils: getClosestValue\<close>

text \<open>
  The function is generic in \<open>T\<close>; the test \<open>if (values[key])\<close> depends on the run-time
  value, so the model takes the truthiness of \<open>T\<close> as its first argument. The optional
  \<open>defaultValue\<close> is an option, \<open>None\<close> when the caller omits it. The first test,
  \<open>Object.keys(values).indexOf(breakpoint) !== -1\<close>, holds exactly when \<open>breakpoint\<close>
  is an own key of \<open>values\<close>, and then \<open>values[breakpoint]\<close> is its entry.

  The \<open>while\<close> loop: \<open>stopIndex\<close> runs downwards; the loop leaves with the position of
  the first truthy entry, or with \<open>-1\<close> (the value \<open>index\<close> still has) when it runs
  past the start. \<open>breakpoints[stopIndex]\<close> outside the array is \<open>undefined\<close>, which as
  a property key is the string \<open>undefined\<close>.
\<close>

definition key_at :: "string list \<Rightarrow> int \<Rightarrow> string" where
  "key_at breakpoints i = template_str (at breakpoints i)"

function getClosestValue_loop ::
  "('a \<Rightarrow> bool) \<Rightarrow> (string \<rightharpoonup> 'a) \<Rightarrow> string list \<Rightarrow> int \<Rightarrow> int" where
  "getClosestValue_loop truthy values breakpoints stopIndex =
     (if stopIndex \<ge> 0 then
        (if truthy_opt truthy (values (key_at breakpoints stopIndex)) then stopIndex
         else getClosestValue_loop truthy values breakpoints (stopIndex - 1))
      else -1)"
  by pat_completeness auto
termination
  by (relation "measure (\<lambda>(t, v, b, i). nat (i + 1))") auto

declare getClosestValue_loop.simps [simp del]

definition getClosestValue ::
  "('a \<Rightarrow> bool) \<Rightarrow> (string \<rightharpoonup> 'a) \<Rightarrow> string \<Rightarrow> string list \<Rightarrow> 'a option \<Rightarrow> 'a option" where
  "getClosestValue truthy values breakpoint breakpoints defaultValue =
     (if values breakpoint \<noteq> None then values breakpoint
      else
        (let index = getClosestValue_loop truthy values breakpoints
                       (indexOf breakpoints breakpoint)
         in if index \<noteq> -1 then values (key_at breakpoints index) else defaultValue))"


section \<open>config: the Hug configuration\<close>

record HugConfigProps =
  layoutMax :: string
  gaps :: "string \<rightharpoonup> string"
  columns :: "string \<rightharpoonup> int"

definition HugConfig :: HugConfigProps where
  "HugConfig =
     \<lparr>layoutMax = ''container.xl'',
      gaps = [''base'' \<mapsto> ''4'', ''md'' \<mapsto> ''8'', ''lg'' \<mapsto> ''12''],
      columns = [''base'' \<mapsto> 4, ''md'' \<mapsto> 8, ''lg'' \<mapsto> 12]\<rparr>"


section \<open>Errors\<close>

text \<open>
  Every \<open>throw\<close> of the component is a constructor. The first three are the
  \<open>new Error(...)\<close> of \<open>Hug\<close>; \<open>LineNotFound\<close> is the one of \<open>useHugGrid\<close>, with
  the four things its message interpolates: the missing line, the current media query,
  the column count and the names of the grid lines. The last three come from the
  engine: \<open>RangeError\<close> is what \<open>Array(columnCount - 1)\<close> raises for a length that is
  negative or above \<open>2^32 - 1\<close>; \<open>EngineLimit\<close> stands for the engine failing to build
  an array of the size asked for (a \<open>RangeError\<close> or a fatal abort, depending on the
  engine and the size; either way nothing is returned); \<open>TypeError\<close> is what
  destructuring \<open>undefined\<close> or reading a property of \<open>undefined\<close> raises.
\<close>

datatype error =
    CantGetBreakpoint
  | CantGetGapToken
  | CantGetColumns
  | LineNotFound string string int "string list"
  | RangeError
  | EngineLimit
  | TypeError

definition hug_emoji :: string where
  "hug_emoji = [CHR 0xF0, CHR 0x9F, CHR 0xA4, CHR 0x97]"

definition header :: string where
  "header = hug_emoji @ '' Human Universal Gridder''"

text \<open>The text of the errors the library constructs itself. The text of an engine error is
  the engine's own and is left unspecified.\<close>

fun message :: "error \<Rightarrow> string" where
  "message CantGetBreakpoint = header @ '': Can't get current breakpoint''"
| "message CantGetGapToken = header @ '': Can't get current gap token''"
| "message CantGetColumns = header @ '': Can't get current number of columns''"
| "message (LineNotFound line currentMdq columnCount names) =
     header @ [CHR 0x0A, CHR 0x0A] @
     ''The grid line '' @ [CHR 0x60] @ line @ [CHR 0x60] @ '' does not exist in the '' @
     currentMdq @ '' media query which has '' @ show_int columnCount @ '' columns.'' @
     [CHR 0x0A] @
     ''Grid lines for '' @ currentMdq @ '': '' @ join '' | '' names"


section \<open>Hug: the grid of one media query\<close>

record col =
  name :: string
  "value" :: string

text \<open>The width of a content column, the three nested \<open>calc\<close> of \<open>useHugGrid\<close>.\<close>

definition layoutMaxNoPadding :: "string \<Rightarrow> string \<Rightarrow> string" where
  "layoutMaxNoPadding layoutMax' gridGap = ''calc('' @ layoutMax' @ '' - '' @ gridGap @ '')''"

definition fullColumn :: "string \<Rightarrow> string \<Rightarrow> int \<Rightarrow> string" where
  "fullColumn layoutMax' gridGap columnCount =
     ''calc('' @ layoutMaxNoPadding layoutMax' gridGap @ '' / '' @ show_int columnCount @ '')''"

definition contentColWidth :: "string \<Rightarrow> string \<Rightarrow> int \<Rightarrow> string" where
  "contentColWidth layoutMax' gridGap columnCount =
     ''calc('' @ fullColumn layoutMax' gridGap columnCount @ '' - '' @ gridGap @ '')''"

text \<open>
  Arrays are bounded. The language allows at most \<open>2^32 - 1\<close> entries, and an engine
  builds fewer: how many depends on the engine and on the memory it has. That capacity is
  not in the source, so it is the parameter \<open>maxLength\<close> of everything that builds an
  array whose size depends on the column count; \<open>arrayLimit\<close> is the largest number of
  entries an array can have under it.
\<close>

definition arrayLimit :: "int \<Rightarrow> int" where
  "arrayLimit maxLength = min maxLength 4294967295"

text \<open>\<open>Array(columnCount - 1).fill(0).map((_, i) => ...)\<close>: \<open>Array\<close> refuses a length
  that is not an array length; \<open>fill\<close> and \<open>map\<close> need an array of
  \<open>columnCount - 1\<close> entries; the index \<open>i\<close> runs over \<open>0 .. columnCount - 2\<close>.\<close>

definition contentColumns :: "int \<Rightarrow> int \<Rightarrow> string \<Rightarrow> error + col list" where
  "contentColumns maxLength columnCount width =
     (if columnCount - 1 < 0 \<or> columnCount - 1 > 4294967295 then Inl RangeError
      else if arrayLimit maxLength < columnCount - 1 then Inl EngineLimit
      else Inr (map (\<lambda>i. \<lparr>name = ''content-'' @ show_nat (i + 2),
                            value = ''[content-'' @ show_nat (i + 2) @ ''] minmax(0, '' @
                                    width @ '')''\<rparr>)
                  [0..<nat (columnCount - 1)]))"

text \<open>The array literal holds the content columns and four more entries.\<close>

definition gridTemplateForMdq :: "int \<Rightarrow> int \<Rightarrow> string \<Rightarrow> error + col list" where
  "gridTemplateForMdq maxLength columnCount width =
     (case contentColumns maxLength columnCount width of
        Inl e \<Rightarrow> Inl e
      | Inr cols \<Rightarrow>
          if arrayLimit maxLength < int (length cols) + 4 then Inl EngineLimit
          else
          Inr ([\<lparr>name = ''full-start'', value = ''[full-start] minmax(0, 1fr)''\<rparr>,
                \<lparr>name = ''content-start'',
                 value = ''[content-start] minmax(0, '' @ width @ '')''\<rparr>]
               @ cols @
               [\<lparr>name = ''content-end'', value = ''[content-end] minmax(0, 1fr)''\<rparr>,
                \<lparr>name = ''full-end'', value = ''[full-end]''\<rparr>]))"

text \<open>
  The body of \<open>if (userGrid)\<close> after the pair \<open>[start, end]\<close> has been read: the span
  expression, the two \<open>findIndex\<close>, the \<open>throw\<close>, and the sliced template closed by the
  name of the last column. \<open>start\<close> and \<open>end\<close> are \<open>undefined\<close> (\<open>None\<close>) when the
  user's array is shorter than two; \<open>col.name === undefined\<close> is false for every column.
  The result is the pair \<open>(gridTemplateColumns, gridColumn)\<close>. The arrays built here
  (the slice, the names for the message) are no longer than the template they are taken
  from.
\<close>

definition subGrid ::
  "col list \<Rightarrow> string \<Rightarrow> int \<Rightarrow> string option \<Rightarrow> string option \<Rightarrow> error + (col list \<times> string)" where
  "subGrid template currentMdq columnCount start end' =
     (let gridColumn = template_str start @ '' / '' @ template_str end';
          startIdx = findIndex (\<lambda>col. Some (name col) = start) template;
          endIdx = findIndex (\<lambda>col. Some (name col) = end') template
      in if startIdx = -1 \<or> endIdx = -1 then
           Inl (LineNotFound (template_str (if startIdx = -1 then start else end'))
                  currentMdq columnCount (map name template))
         else
           (case at template endIdx of
              None \<Rightarrow> Inl TypeError
            | Some lastColumn \<Rightarrow>
                Inr (slice template startIdx endIdx @
                       [\<lparr>name = name lastColumn, value = ''['' @ name lastColumn @ '']''\<rparr>],
                     gridColumn)))"

record gridProps =
  gridTemplateColumns :: string
  gridColumn :: "string option"

definition useHugGrid ::
  "int \<Rightarrow> (string \<rightharpoonup> string list) option \<Rightarrow> int \<Rightarrow> string \<Rightarrow> string \<Rightarrow> string \<Rightarrow>
   string list \<Rightarrow> error + gridProps" where
  "useHugGrid maxLength userGrid columnCount layoutMax' gridGap currentMdq breakpoints =
     (case gridTemplateForMdq maxLength columnCount
             (contentColWidth layoutMax' gridGap columnCount) of
        Inl e \<Rightarrow> Inl e
      | Inr template \<Rightarrow>
          (case userGrid of
             None \<Rightarrow>
               Inr \<lparr>gridTemplateColumns = join [CHR 0x0A] (map value template),
                    gridColumn = None\<rparr>
           | Some grid \<Rightarrow>
               (case getClosestValue truthy_array grid currentMdq breakpoints
                       (Some [''full-start'', ''full-end'']) of
                  None \<Rightarrow> Inl TypeError
                | Some pair \<Rightarrow>
                    (case subGrid template currentMdq columnCount (at pair 0) (at pair 1) of
                       Inl e \<Rightarrow> Inl e
                     | Inr (cols, span) \<Rightarrow>
                         Inr \<lparr>gridTemplateColumns = join [CHR 0x0A] (map value cols),
                              gridColumn = Some span\<rparr>))))"


section \<open>Hug: the component\<close>

text \<open>
  The theme gives the optional \<open>config.hug\<close> and the optional list of breakpoint names
  \<open>__breakpoints.keys\<close>. The two Chakra hooks are outside the library and are
  parameters: \<open>useToken scale token\<close> resolves a size token, and
  \<open>useBreakpointValue\<close> picks the entry of the current breakpoint from the array it is
  given (\<open>None\<close> for \<open>undefined\<close>). \<open>maxLength\<close> is the engine's array capacity, handed
  on to \<open>useHugGrid\<close>. The result keeps the props the component computes.
\<close>

record theme =
  config_hug :: "HugConfigProps option"
  breakpoints_keys :: "string list option"

record hugProps =
  display :: string
  gap :: string
  grid :: gridProps

text \<open>\<open>theme.config?.hug ?? HugConfig\<close> and
  \<open>Array.from(theme.__breakpoints?.keys || [])\<close>.\<close>

definition hugConfigOf :: "theme \<Rightarrow> HugConfigProps" where
  "hugConfigOf th = (case config_hug th of None \<Rightarrow> HugConfig | Some c \<Rightarrow> c)"

definition breakpointsOf :: "theme \<Rightarrow> string list" where
  "breakpointsOf th = (case breakpoints_keys th of None \<Rightarrow> [] | Some ks \<Rightarrow> ks)"

text \<open>After each of the three \<open>if (!x) throw\<close> the tested value is defined, so the
  readings \<open>template_str\<close> and \<open>case ... of None\<close> below never meet \<open>None\<close>.\<close>

definition Hug ::
  "int \<Rightarrow> theme \<Rightarrow> (string \<Rightarrow> string \<Rightarrow> string) \<Rightarrow> (string list \<Rightarrow> string option) \<Rightarrow>
   (string \<rightharpoonup> string list) option \<Rightarrow> error + hugProps" where
  "Hug maxLength th useToken useBreakpointValue hugGrid =
     (let layoutMax' = useToken ''sizes'' (layoutMax (hugConfigOf th));
          breakpoints = breakpointsOf th;
          currentMdq = useBreakpointValue breakpoints
      in if \<not> truthy_opt truthy_string currentMdq then Inl CantGetBreakpoint
         else
           (let mdq = template_str currentMdq;
                gapToken = getClosestValue truthy_string (gaps (hugConfigOf th)) mdq
                             breakpoints None
            in if \<not> truthy_opt truthy_string gapToken then Inl CantGetGapToken
               else
                 (let gridGap = useToken ''sizes'' (template_str gapToken);
                      columnCount = getClosestValue truthy_number (columns (hugConfigOf th)) mdq
                                      breakpoints None
                  in if \<not> truthy_opt truthy_number columnCount then Inl CantGetColumns
                     else
                       (case useHugGrid maxLength hugGrid
                               (case columnCount of None \<Rightarrow> 0 | Some n \<Rightarrow> n)
                               layoutMax' gridGap mdq breakpoints of
                          Inl e \<Rightarrow> Inl e
                        | Inr g \<Rightarrow> Inr \<lparr>display = ''grid'', gap = gridGap, grid = g\<rparr>))))"


section \<open>Facts about the primitives\<close>

lemma findIndex_ge: "findIndex p xs \<ge> -1"
  by (induction xs) auto

lemma findIndex_lt: "findIndex p xs < int (length xs)"
proof (induction xs)
  case Nil
  show ?case by simp
next
  case (Cons x xs)
  have "findIndex p (x # xs) \<le> findIndex p xs + 1"
    using findIndex_ge [of p xs] by simp
  moreover have "int (length (x # xs)) = int (length xs) + 1"
    by simp
  ultimately show ?case using Cons by linarith
qed

lemma findIndex_none: "findIndex p xs = -1 \<longleftrightarrow> (\<forall>x\<in>set xs. \<not> p x)"
proof (induction xs)
  case Nil
  show ?case by simp
next
  case (Cons x xs)
  have "findIndex p xs + 1 \<noteq> -1"
    using findIndex_ge [of p xs] by linarith
  with Cons show ?case by simp
qed

lemma findIndex_found: "findIndex p xs \<noteq> -1 \<Longrightarrow> p (xs ! nat (findIndex p xs))"
proof (induction xs)
  case Nil
  then show ?case by simp
next
  case (Cons x xs)
  show ?case
  proof (cases "p x")
    case True
    then show ?thesis by simp
  next
    case False
    with Cons.prems have ne: "findIndex p xs \<noteq> -1" by (auto split: if_splits)
    with findIndex_ge [of p xs] have "0 \<le> findIndex p xs" by arith
    then have "nat (findIndex p xs + 1) = Suc (nat (findIndex p xs))" by arith
    with False ne Cons.IH show ?thesis by simp
  qed
qed

lemma findIndex_first: "int j < findIndex p xs \<Longrightarrow> \<not> p (xs ! j)"
proof (induction xs arbitrary: j)
  case Nil
  then show ?case by simp
next
  case (Cons x xs)
  then show ?case
    by (cases j) (auto split: if_splits)
qed

lemma findIndex_map: "findIndex p (map f xs) = findIndex (p \<circ> f) xs"
  by (induction xs) auto

lemma indexOf_mem: "indexOf xs x \<noteq> -1 \<longleftrightarrow> x \<in> set xs"
  by (auto simp: indexOf_def findIndex_none)

lemma indexOf_nth: "indexOf xs x = int i \<Longrightarrow> i < length xs \<and> xs ! i = x"
  using findIndex_lt [of "\<lambda>y. y = x" xs] findIndex_found [of "\<lambda>y. y = x" xs]
  by (auto simp: indexOf_def)

lemma indexOf_lt: "indexOf xs x < int (length xs)"
  by (simp add: indexOf_def findIndex_lt)

lemma key_at_nth: "i < length b \<Longrightarrow> key_at b (int i) = b ! i"
  by (simp add: key_at_def at_def template_str_def)

lemma drop_take_nth:
  "j \<le> length xs \<Longrightarrow> drop i (take j xs) = map (\<lambda>k. xs ! k) [i..<j]"
  by (rule nth_equalityI) auto

lemma slice_nat:
  "j \<le> length xs \<Longrightarrow> slice xs (int i) (int j) = map (\<lambda>k. xs ! k) [i..<j]"
proof -
  assume j: "j \<le> length xs"
  have "drop (min i (length xs)) (take j xs) = drop i (take j xs)"
    by (cases "i \<le> length xs") simp_all
  with j show ?thesis
    by (simp add: slice_def relIndex_def drop_take_nth min_def)
qed

lemma show_nat_examples:
  "show_nat 0 = ''0''" "show_nat 7 = ''7''" "show_nat 12 = ''12''" "show_nat 4096 = ''4096''"
  by (simp_all add: show_nat.simps digit_def)


section \<open>The backward scan\<close>

text \<open>
  The loop ends either with \<open>-1\<close> or at a position at or below its start whose entry is
  truthy; every position it passed holds a falsy entry; and it stops at the first truthy
  entry it meets.
\<close>

lemma loop_neg: "i < 0 \<Longrightarrow> getClosestValue_loop t v b i = -1"
  by (simp add: getClosestValue_loop.simps)

lemma loop_result:
  "getClosestValue_loop t v b i = -1 \<or>
   (0 \<le> getClosestValue_loop t v b i \<and> getClosestValue_loop t v b i \<le> i \<and>
    truthy_opt t (v (key_at b (getClosestValue_loop t v b i))))"
proof (induction t v b i rule: getClosestValue_loop.induct)
  case (1 t v b i)
  show ?case
  proof (cases "0 \<le> i \<and> \<not> truthy_opt t (v (key_at b i))")
    case True
    then have "getClosestValue_loop t v b i = getClosestValue_loop t v b (i - 1)"
      by (subst getClosestValue_loop.simps) simp
    with True "1.IH" show ?thesis by auto
  next
    case False
    then show ?thesis by (subst (1 2 3 4) getClosestValue_loop.simps) auto
  qed
qed

lemma loop_skipped:
  "getClosestValue_loop t v b i < k \<Longrightarrow> k \<le> i \<Longrightarrow> 0 \<le> k \<Longrightarrow> \<not> truthy_opt t (v (key_at b k))"
proof (induction t v b i rule: getClosestValue_loop.induct)
  case (1 t v b i)
  show ?case
  proof (cases "0 \<le> i \<and> \<not> truthy_opt t (v (key_at b i))")
    case True
    then have eq: "getClosestValue_loop t v b i = getClosestValue_loop t v b (i - 1)"
      by (subst getClosestValue_loop.simps) simp
    show ?thesis
    proof (cases "k = i")
      case True
      with \<open>0 \<le> i \<and> \<not> truthy_opt t (v (key_at b i))\<close> show ?thesis by simp
    next
      case False
      with "1.prems" eq True "1.IH" show ?thesis by auto
    qed
  next
    case False
    with "1.prems" show ?thesis by (subst (asm) getClosestValue_loop.simps) (auto split: if_splits)
  qed
qed

lemma loop_first:
  assumes "0 \<le> j" "j \<le> i" "truthy_opt t (v (key_at b j))"
    and "\<forall>k. j < k \<and> k \<le> i \<longrightarrow> \<not> truthy_opt t (v (key_at b k))"
  shows "getClosestValue_loop t v b i = j"
proof -
  let ?r = "getClosestValue_loop t v b i"
  have "\<not> ?r < j" using loop_skipped [of t v b i j] assms by auto
  moreover have "\<not> j < ?r" using loop_result [of t v b i] assms by auto
  ultimately show ?thesis by simp
qed

lemma getClosestValue_scan:
  "values breakpoint = None \<Longrightarrow>
   getClosestValue truthy values breakpoint breakpoints defaultValue =
     (if getClosestValue_loop truthy values breakpoints (indexOf breakpoints breakpoint) = -1
      then defaultValue
      else values (key_at breakpoints
             (getClosestValue_loop truthy values breakpoints (indexOf breakpoints breakpoint))))"
  by (simp add: getClosestValue_def Let_def)


section \<open>Closest-value resolution\<close>

text \<open>
  Claim C1 (exact match precedence). When \<open>values\<close> has an own entry for the current
  breakpoint, \<open>getClosestValue\<close> returns that entry, whatever its truthiness, whatever
  the breakpoint order and whatever the fallback.
\<close>

theorem getClosestValue_exact_match:
  "values breakpoint = Some v \<Longrightarrow>
   getClosestValue truthy values breakpoint breakpoints defaultValue = Some v"
  by (simp add: getClosestValue_def)

theorem getClosestValue_exact_match_witness:
  "[''base'' \<mapsto> (0::int), ''md'' \<mapsto> 8] ''base'' = Some 0 \<and> \<not> truthy_number 0 \<and>
   getClosestValue truthy_number [''base'' \<mapsto> (0::int), ''md'' \<mapsto> 8] ''base''
     [''base'', ''md''] (Some 5) = Some 0"
  using getClosestValue_exact_match
    [of "[''base'' \<mapsto> (0::int), ''md'' \<mapsto> 8]" "''base''" 0 truthy_number
        "[''base'', ''md'']" "Some 5"]
  by (simp add: truthy_number_def)

text \<open>
  Claim C2 (mobile-first cascade). When \<open>values\<close> has no own entry for the current
  breakpoint, the position \<open>j\<close> is at or before the current breakpoint's position in the
  order, the entry of the \<open>j\<close>-th breakpoint is truthy and every entry between \<open>j\<close> and
  the current position is falsy, then \<open>getClosestValue\<close> returns the entry of the
  \<open>j\<close>-th breakpoint: the first truthy entry met scanning backward. The witness is the
  example of the specification: order \<open>[a, b, c, d]\<close>, values \<open>{a: 1, c: 3}\<close>, resolved at
  \<open>b\<close> (giving 1) and at \<open>d\<close> (giving 3).
\<close>

theorem getClosestValue_cascade:
  assumes none: "values breakpoint = None"
    and le: "int j \<le> indexOf breakpoints breakpoint"
    and tr: "truthy_opt truthy (values (breakpoints ! j))"
    and sk: "\<forall>k. j < k \<and> int k \<le> indexOf breakpoints breakpoint \<longrightarrow>
               \<not> truthy_opt truthy (values (breakpoints ! k))"
  shows "getClosestValue truthy values breakpoint breakpoints defaultValue =
         values (breakpoints ! j)"
proof -
  let ?i = "indexOf breakpoints breakpoint"
  have jlen: "j < length breakpoints"
    using le indexOf_lt [of breakpoints breakpoint] by linarith
  have "\<forall>k. int j < k \<and> k \<le> ?i \<longrightarrow> \<not> truthy_opt truthy (values (key_at breakpoints k))"
  proof (intro allI impI)
    fix k :: int
    assume k: "int j < k \<and> k \<le> ?i"
    then have klen: "nat k < length breakpoints" and kj: "j < nat k" "int (nat k) \<le> ?i"
      using indexOf_lt [of breakpoints breakpoint] by linarith+
    with sk have "\<not> truthy_opt truthy (values (breakpoints ! nat k))" by blast
    moreover have "key_at breakpoints k = breakpoints ! nat k"
      using key_at_nth [OF klen] k by simp
    ultimately show "\<not> truthy_opt truthy (values (key_at breakpoints k))" by simp
  qed
  then have "getClosestValue_loop truthy values breakpoints ?i = int j"
    using loop_first [of "int j" ?i truthy "values" breakpoints] le tr key_at_nth [OF jlen]
    by simp
  then show ?thesis
    using none key_at_nth [OF jlen] by (simp add: getClosestValue_scan)
qed

theorem getClosestValue_cascade_witness:
  "getClosestValue truthy_number [''a'' \<mapsto> (1::int), ''c'' \<mapsto> 3] ''b''
     [''a'', ''b'', ''c'', ''d''] None = Some 1 \<and>
   getClosestValue truthy_number [''a'' \<mapsto> (1::int), ''c'' \<mapsto> 3] ''d''
     [''a'', ''b'', ''c'', ''d''] None = Some 3"
proof -
  let ?v = "[''a'' \<mapsto> (1::int), ''c'' \<mapsto> 3]"
  let ?o = "[''a'', ''b'', ''c'', ''d'']"
  have ib: "indexOf ?o ''b'' = 1" and id: "indexOf ?o ''d'' = 3"
    by (simp_all add: indexOf_def)
  have skb: "\<forall>k. 0 < k \<and> int k \<le> indexOf ?o ''b'' \<longrightarrow> \<not> truthy_opt truthy_number (?v (?o ! k))"
  proof (intro allI impI)
    fix k :: nat
    assume "0 < k \<and> int k \<le> indexOf ?o ''b''"
    with ib have "k = 1" by simp
    then show "\<not> truthy_opt truthy_number (?v (?o ! k))"
      by (simp add: truthy_opt_def)
  qed
  have skd: "\<forall>k. 2 < k \<and> int k \<le> indexOf ?o ''d'' \<longrightarrow> \<not> truthy_opt truthy_number (?v (?o ! k))"
  proof (intro allI impI)
    fix k :: nat
    assume "2 < k \<and> int k \<le> indexOf ?o ''d''"
    with id have "k = 3" by simp
    then show "\<not> truthy_opt truthy_number (?v (?o ! k))"
      by (simp add: truthy_opt_def)
  qed
  have b: "getClosestValue truthy_number ?v ''b'' ?o None = ?v (?o ! 0)"
    by (rule getClosestValue_cascade [where j = 0, OF _ _ _ skb])
       (simp_all add: ib truthy_opt_def truthy_number_def)
  have d: "getClosestValue truthy_number ?v ''d'' ?o None = ?v (?o ! 2)"
    by (rule getClosestValue_cascade [where j = 2, OF _ _ _ skd])
       (simp_all add: id truthy_opt_def truthy_number_def)
  from b d show ?thesis by simp
qed

text \<open>
  Claim C3 (truthiness asymmetry of the scan). When the current breakpoint has no own
  entry and a breakpoint at position \<open>j\<close>, at or before the current position, holds a
  falsy entry \<open>v\<close>: the loop at \<open>j\<close> moves on to \<open>j - 1\<close>; the scan from the current
  position does not stop at \<open>j\<close>; the result of \<open>getClosestValue\<close> is the fallback or the
  truthy entry of another position; and resolving at the \<open>j\<close>-th breakpoint itself
  returns the same falsy \<open>v\<close> (the exact match).
\<close>

theorem getClosestValue_scan_skips_falsy:
  assumes none: "values breakpoint = None"
    and le: "int j \<le> indexOf breakpoints breakpoint"
    and entry: "values (breakpoints ! j) = Some v"
    and falsy: "\<not> truthy v"
  shows "getClosestValue_loop truthy values breakpoints (int j) =
           getClosestValue_loop truthy values breakpoints (int j - 1) \<and>
         getClosestValue_loop truthy values breakpoints (indexOf breakpoints breakpoint) \<noteq> int j \<and>
         (getClosestValue truthy values breakpoint breakpoints defaultValue = defaultValue \<or>
          (\<exists>k. k \<noteq> j \<and> int k \<le> indexOf breakpoints breakpoint \<and>
               truthy_opt truthy (values (breakpoints ! k)) \<and>
               getClosestValue truthy values breakpoint breakpoints defaultValue =
                 values (breakpoints ! k))) \<and>
         getClosestValue truthy values (breakpoints ! j) breakpoints defaultValue = Some v"
proof -
  let ?i = "indexOf breakpoints breakpoint"
  let ?r = "getClosestValue_loop truthy values breakpoints ?i"
  have jlen: "j < length breakpoints"
    using le indexOf_lt [of breakpoints breakpoint] by linarith
  have fj: "\<not> truthy_opt truthy (values (key_at breakpoints (int j)))"
    using entry falsy key_at_nth [OF jlen] by (simp add: truthy_opt_def)
  have step: "getClosestValue_loop truthy values breakpoints (int j) =
              getClosestValue_loop truthy values breakpoints (int j - 1)"
    using fj by (subst getClosestValue_loop.simps) simp
  have res: "?r = -1 \<or> (0 \<le> ?r \<and> ?r \<le> ?i \<and> truthy_opt truthy (values (key_at breakpoints ?r)))"
    by (rule loop_result)
  have ne: "?r \<noteq> int j"
    using res fj by auto
  have out: "getClosestValue truthy values breakpoint breakpoints defaultValue = defaultValue \<or>
          (\<exists>k. k \<noteq> j \<and> int k \<le> ?i \<and> truthy_opt truthy (values (breakpoints ! k)) \<and>
               getClosestValue truthy values breakpoint breakpoints defaultValue =
                 values (breakpoints ! k))"
  proof (cases "?r = -1")
    case True
    with none show ?thesis by (simp add: getClosestValue_scan)
  next
    case False
    with res have r: "0 \<le> ?r" "?r \<le> ?i" "truthy_opt truthy (values (key_at breakpoints ?r))"
      by auto
    then have rlen: "nat ?r < length breakpoints"
      using indexOf_lt [of breakpoints breakpoint] by linarith
    have key: "key_at breakpoints ?r = breakpoints ! nat ?r"
      using key_at_nth [OF rlen] r(1) by simp
    have "nat ?r \<noteq> j" using ne r(1) by auto
    moreover have "int (nat ?r) \<le> ?i" using r by simp
    moreover have "truthy_opt truthy (values (breakpoints ! nat ?r))" using r(3) key by simp
    moreover have "getClosestValue truthy values breakpoint breakpoints defaultValue =
                   values (breakpoints ! nat ?r)"
      using none False key by (simp add: getClosestValue_scan)
    ultimately show ?thesis by blast
  qed
  have exact: "getClosestValue truthy values (breakpoints ! j) breakpoints defaultValue = Some v"
    using entry by (simp add: getClosestValue_def)
  from step ne out exact show ?thesis by blast
qed

theorem getClosestValue_scan_skips_falsy_witness:
  "getClosestValue_loop truthy_number [''base'' \<mapsto> (4::int), ''sm'' \<mapsto> 0]
     [''base'', ''sm'', ''md''] 1 =
   getClosestValue_loop truthy_number [''base'' \<mapsto> (4::int), ''sm'' \<mapsto> 0]
     [''base'', ''sm'', ''md''] 0 \<and>
   getClosestValue_loop truthy_number [''base'' \<mapsto> (4::int), ''sm'' \<mapsto> 0]
     [''base'', ''sm'', ''md''] 2 \<noteq> 1 \<and>
   getClosestValue truthy_number [''base'' \<mapsto> (4::int), ''sm'' \<mapsto> 0] ''md''
     [''base'', ''sm'', ''md''] (Some 7) = Some 4 \<and>
   getClosestValue truthy_number [''base'' \<mapsto> (4::int), ''sm'' \<mapsto> 0] ''sm''
     [''base'', ''sm'', ''md''] (Some 7) = Some 0"
proof -
  let ?v = "[''base'' \<mapsto> (4::int), ''sm'' \<mapsto> 0]"
  let ?o = "[''base'', ''sm'', ''md'']"
  have i: "indexOf ?o ''md'' = 2"
    by (simp add: indexOf_def)
  have md: "getClosestValue truthy_number ?v ''md'' ?o (Some 7) = Some 4"
    by code_simp
  from getClosestValue_scan_skips_falsy
         [of ?v "''md''" 1 ?o 0 truthy_number "Some 7"] i md
  show ?thesis
    by (simp add: truthy_number_def)
qed

text \<open>
  Claim C7 (current breakpoint absent from the order), as amended. When the current
  breakpoint does not occur in the order and \<open>values\<close> has no own entry for it,
  \<open>getClosestValue\<close> returns the fallback (\<open>None\<close> when none was given). Without the
  second condition the statement fails: the exact match is tested before the order is
  looked at, so an own entry for a breakpoint outside the order is returned instead of the
  fallback.
\<close>

theorem getClosestValue_not_in_order:
  "values breakpoint = None \<Longrightarrow> breakpoint \<notin> set breakpoints \<Longrightarrow>
   getClosestValue truthy values breakpoint breakpoints defaultValue = defaultValue"
  using indexOf_mem [of breakpoints breakpoint]
  by (simp add: getClosestValue_scan loop_neg)

theorem getClosestValue_not_in_order_witness:
  "getClosestValue truthy_number [''base'' \<mapsto> (4::int)] ''xl'' [''base'', ''md''] (Some 9) = Some 9 \<and>
   getClosestValue truthy_number [''base'' \<mapsto> (4::int)] ''xl'' [''base'', ''md''] None = None"
  using getClosestValue_not_in_order
          [of "[''base'' \<mapsto> (4::int)]" "''xl''" "[''base'', ''md'']" truthy_number "Some 9"]
        getClosestValue_not_in_order
          [of "[''base'' \<mapsto> (4::int)]" "''xl''" "[''base'', ''md'']" truthy_number None]
  by simp

theorem getClosestValue_not_in_order_counterexample:
  "''xl'' \<notin> set [''base'', ''md''] \<and>
   getClosestValue truthy_number [''xl'' \<mapsto> (5::int)] ''xl'' [''base'', ''md''] (Some 9) \<noteq> Some 9 \<and>
   getClosestValue truthy_number [''xl'' \<mapsto> (5::int)] ''xl'' [''base'', ''md''] None \<noteq> None"
  by (simp add: getClosestValue_def)


section \<open>The grid template\<close>

lemma contentColumns_ok:
  "1 \<le> columnCount \<Longrightarrow> columnCount + 3 \<le> arrayLimit maxLength \<Longrightarrow>
   contentColumns maxLength columnCount width =
     Inr (map (\<lambda>i. \<lparr>name = ''content-'' @ show_nat (i + 2),
                       value = ''[content-'' @ show_nat (i + 2) @ ''] minmax(0, '' @ width @ '')''\<rparr>)
            [0..<nat (columnCount - 1)])"
  by (auto simp: contentColumns_def arrayLimit_def)

lemma contentColumns_length:
  "contentColumns maxLength columnCount width = Inr cols \<Longrightarrow>
   length cols = nat (columnCount - 1)"
  by (auto simp: contentColumns_def split: if_splits)

lemma shifted_names:
  "map (\<lambda>i. f (i + 2)) [0..<n] = map f [2..<n + 2]"
proof -
  have "map f (map (\<lambda>i. i + 2) [0..<n]) = map f [2..<n + 2]"
    by (simp only: map_add_upt)
  then show ?thesis by (simp add: comp_def)
qed

lemma gridTemplateForMdq_built:
  assumes "1 \<le> columnCount" and "columnCount + 3 \<le> arrayLimit maxLength"
  shows "\<exists>cols. gridTemplateForMdq maxLength columnCount width = Inr cols \<and>
           length cols = nat columnCount + 3 \<and>
           map name cols =
             [''full-start'', ''content-start''] @
             map (\<lambda>k. ''content-'' @ show_nat k) [2..<nat columnCount + 1] @
             [''content-end'', ''full-end'']"
proof -
  have n: "nat (columnCount - 1) + 2 = nat columnCount + 1"
    using assms(1) by linarith
  have "map (\<lambda>i. ''content-'' @ show_nat (i + 2)) [0..<nat (columnCount - 1)] =
        map (\<lambda>k. ''content-'' @ show_nat k) [2..<nat columnCount + 1]"
    using shifted_names [of "\<lambda>k. ''content-'' @ show_nat k" "nat (columnCount - 1)"] n
    by simp
  moreover have "nat (columnCount - 1) + 4 = nat columnCount + 3"
    using assms(1) by linarith
  moreover have "\<not> arrayLimit maxLength < int (nat (columnCount - 1)) + 4"
    using assms by linarith
  ultimately show ?thesis
    using assms
    by (simp add: gridTemplateForMdq_def contentColumns_ok comp_def)
qed

lemma gridTemplateForMdq_not_built:
  assumes "1 \<le> columnCount" and "arrayLimit maxLength < columnCount + 3"
  shows "\<exists>e. gridTemplateForMdq maxLength columnCount width = Inl e"
proof (cases "contentColumns maxLength columnCount width")
  case (Inl e)
  then show ?thesis by (simp add: gridTemplateForMdq_def)
next
  case (Inr cols)
  have "int (length cols) + 4 = columnCount + 3"
    using contentColumns_length [OF Inr] assms(1) by linarith
  with Inr assms(2) show ?thesis by (simp add: gridTemplateForMdq_def)
qed

lemma gridTemplateForMdq_RangeError:
  "4294967296 < columnCount \<Longrightarrow>
   gridTemplateForMdq maxLength columnCount width = Inl RangeError"
  by (simp add: gridTemplateForMdq_def contentColumns_def)

text \<open>
  Claim C4 (template length and name order), as amended. For every column count from 1
  on whose \<open>columnCount + 3\<close> entries fit into an array (at most \<open>2^32 - 1\<close> entries by
  the language, and no more than the engine running the code can build), the template is
  built, has \<open>columnCount + 3\<close> entries, and its names are \<open>full-start\<close>,
  \<open>content-start\<close>, \<open>content-2\<close> ... \<open>content-<columnCount>\<close>, \<open>content-end\<close>,
  \<open>full-end\<close> in this order. For every larger column count no template is built: the
  construction of the arrays fails.
\<close>

theorem gridTemplateForMdq_names:
  assumes "1 \<le> columnCount"
  shows "(columnCount + 3 \<le> arrayLimit maxLength \<longrightarrow>
            (\<exists>cols. gridTemplateForMdq maxLength columnCount width = Inr cols \<and>
               length cols = nat columnCount + 3 \<and>
               map name cols =
                 [''full-start'', ''content-start''] @
                 map (\<lambda>k. ''content-'' @ show_nat k) [2..<nat columnCount + 1] @
                 [''content-end'', ''full-end''])) \<and>
         (arrayLimit maxLength < columnCount + 3 \<longrightarrow>
            (\<exists>e. gridTemplateForMdq maxLength columnCount width = Inl e))"
  using gridTemplateForMdq_built [OF assms] gridTemplateForMdq_not_built [OF assms]
  by blast

theorem gridTemplateForMdq_names_witness:
  "(\<exists>cols. gridTemplateForMdq 4294967295 4 ''w'' = Inr cols \<and> length cols = 7 \<and>
      map name cols = [''full-start'', ''content-start'', ''content-2'', ''content-3'',
                       ''content-4'', ''content-end'', ''full-end'']) \<and>
   (\<exists>cols. gridTemplateForMdq 1000 1 ''w'' = Inr cols \<and> length cols = 4 \<and>
      map name cols = [''full-start'', ''content-start'', ''content-end'', ''full-end'']) \<and>
   (\<exists>e. gridTemplateForMdq 4294967295 4294967293 ''w'' = Inl e) \<and>
   (\<exists>e. gridTemplateForMdq 1000 998 ''w'' = Inl e)"
proof -
  have u: "[2..<5] = [2, 3, 4::nat]"
    by code_simp
  have s: "show_nat 2 = ''2''" "show_nat 3 = ''3''" "show_nat 4 = ''4''"
    by (simp_all add: show_nat.simps digit_def)
  from gridTemplateForMdq_names [of 4 4294967295 "''w''", THEN conjunct1]
       gridTemplateForMdq_names [of 1 1000 "''w''", THEN conjunct1]
       gridTemplateForMdq_names [of 4294967293 4294967295 "''w''", THEN conjunct2]
       gridTemplateForMdq_names [of 998 1000 "''w''", THEN conjunct2]
  show ?thesis
    by (simp add: u s arrayLimit_def)
qed

theorem gridTemplateForMdq_names_counterexample:
  "(1::int) \<le> 4294967297 \<and> gridTemplateForMdq 4294967295 4294967297 ''w'' = Inl RangeError"
  by (simp add: gridTemplateForMdq_RangeError)


section \<open>Slicing the template to the user's span\<close>

lemma findIndex_name:
  "findIndex (\<lambda>col. name col = s) template = indexOf (map name template) s"
  by (simp add: indexOf_def findIndex_map comp_def)

lemma subGrid_found:
  assumes s: "indexOf (map name template) start = int i"
    and e: "indexOf (map name template) end' = int j"
  shows "subGrid template currentMdq columnCount (Some start) (Some end') =
         Inr (map (\<lambda>k. template ! k) [i..<j] @
                [\<lparr>name = end', value = ''['' @ end' @ '']''\<rparr>],
              start @ '' / '' @ end')"
proof -
  from indexOf_nth [OF e] have jlen: "j < length template" and "map name template ! j = end'"
    by simp_all
  then have nm: "name (template ! j) = end'"
    by simp
  have "at template (int j) = Some (template ! j)"
    using jlen by (simp add: at_def)
  moreover have "slice template (int i) (int j) = map (\<lambda>k. template ! k) [i..<j]"
    using jlen by (simp add: slice_nat)
  ultimately show ?thesis
    using s e nm
    by (simp add: subGrid_def Let_def findIndex_name template_str_def)
qed

text \<open>\<open>useHugGrid\<close> is the template, sliced by \<open>subGrid\<close> when the user gave a
  grid, with the values joined by newlines.\<close>

lemma useHugGrid_span:
  assumes "gridTemplateForMdq maxLength columnCount
             (contentColWidth layoutMax' gridGap columnCount) = Inr template"
    and "getClosestValue truthy_array userGrid currentMdq breakpoints
           (Some [''full-start'', ''full-end'']) = Some [start, end']"
  shows "useHugGrid maxLength (Some userGrid) columnCount layoutMax' gridGap currentMdq
           breakpoints =
         (case subGrid template currentMdq columnCount (Some start) (Some end') of
            Inl e \<Rightarrow> Inl e
          | Inr (cols, span) \<Rightarrow>
              Inr \<lparr>gridTemplateColumns = join [CHR 0x0A] (map value cols),
                   gridColumn = Some span\<rparr>)"
  using assms by (simp add: useHugGrid_def at_def)

lemma useHugGrid_no_span:
  assumes "gridTemplateForMdq maxLength columnCount
             (contentColWidth layoutMax' gridGap columnCount) = Inr template"
  shows "useHugGrid maxLength None columnCount layoutMax' gridGap currentMdq breakpoints =
         Inr \<lparr>gridTemplateColumns = join [CHR 0x0A] (map value template), gridColumn = None\<rparr>"
  using assms by (simp add: useHugGrid_def)

lemma template4:
  "projr (gridTemplateForMdq 4294967295 4 ''w'') =
     [\<lparr>name = ''full-start'', value = ''[full-start] minmax(0, 1fr)''\<rparr>,
      \<lparr>name = ''content-start'', value = ''[content-start] minmax(0, w)''\<rparr>,
      \<lparr>name = ''content-2'', value = ''[content-2] minmax(0, w)''\<rparr>,
      \<lparr>name = ''content-3'', value = ''[content-3] minmax(0, w)''\<rparr>,
      \<lparr>name = ''content-4'', value = ''[content-4] minmax(0, w)''\<rparr>,
      \<lparr>name = ''content-end'', value = ''[content-end] minmax(0, 1fr)''\<rparr>,
      \<lparr>name = ''full-end'', value = ''[full-end]''\<rparr>]"
  by code_simp

text \<open>
  Claim C5 (slice sub-sequence). When \<open>start\<close> is found at position \<open>i\<close> and \<open>end\<close> at
  position \<open>j\<close> of the template, with \<open>i < j\<close>, the slicing returns the entries of the
  template at positions \<open>i\<close> to \<open>j - 1\<close>, followed by one entry that carries the name
  \<open>end\<close> and only the bracketed name as its value (no size), together with the span
  expression \<open>start / end\<close>.
\<close>

theorem subGrid_slice:
  assumes "indexOf (map name template) start = int i"
    and "indexOf (map name template) end' = int j"
    and "i < j"
  shows "subGrid template currentMdq columnCount (Some start) (Some end') =
         Inr (map (\<lambda>k. template ! k) [i..<j] @
                [\<lparr>name = end', value = ''['' @ end' @ '']''\<rparr>],
              start @ '' / '' @ end')"
  using assms(1,2) by (rule subGrid_found)

theorem subGrid_slice_witness:
  "subGrid (projr (gridTemplateForMdq 4294967295 4 ''w'')) ''md'' 4
     (Some ''content-start'') (Some ''content-3'') =
   Inr ([\<lparr>name = ''content-start'', value = ''[content-start] minmax(0, w)''\<rparr>,
         \<lparr>name = ''content-2'', value = ''[content-2] minmax(0, w)''\<rparr>,
         \<lparr>name = ''content-3'', value = ''[content-3]''\<rparr>],
        ''content-start / content-3'')"
proof -
  let ?T = "projr (gridTemplateForMdq 4294967295 4 ''w'')"
  have r: "map (\<lambda>k. ?T ! k) [1..<3] =
             [\<lparr>name = ''content-start'', value = ''[content-start] minmax(0, w)''\<rparr>,
              \<lparr>name = ''content-2'', value = ''[content-2] minmax(0, w)''\<rparr>]"
    by code_simp
  have "subGrid ?T ''md'' 4 (Some ''content-start'') (Some ''content-3'') =
        Inr (map (\<lambda>k. ?T ! k) [1..<3] @
               [\<lparr>name = ''content-3'', value = ''['' @ ''content-3'' @ '']''\<rparr>],
             ''content-start'' @ '' / '' @ ''content-3'')"
    by (rule subGrid_slice) (simp_all add: template4 indexOf_def)
  then show ?thesis
    unfolding r by simp
qed

text \<open>
  Claim C10 (a reversed span does not raise). When both names are found and \<open>start\<close> is
  at or after \<open>end\<close>, the slicing raises nothing: it returns the single unsized entry
  named \<open>end\<close> and the span expression \<open>start / end\<close>.
\<close>

theorem subGrid_reversed:
  assumes "indexOf (map name template) start = int i"
    and "indexOf (map name template) end' = int j"
    and "j \<le> i"
  shows "subGrid template currentMdq columnCount (Some start) (Some end') =
         Inr ([\<lparr>name = end', value = ''['' @ end' @ '']''\<rparr>], start @ '' / '' @ end')"
  using subGrid_found [OF assms(1,2)] assms(3) by simp

theorem subGrid_reversed_witness:
  "subGrid (projr (gridTemplateForMdq 4294967295 4 ''w'')) ''md'' 4
     (Some ''content-end'') (Some ''content-start'') =
   Inr ([\<lparr>name = ''content-start'', value = ''[content-start]''\<rparr>],
        ''content-end / content-start'')"
  using subGrid_reversed [of "projr (gridTemplateForMdq 4294967295 4 ''w'')" "''content-end''" 5
                             "''content-start''" 1 "''md''" 4]
  by (simp add: template4 indexOf_def)

text \<open>
  Claim C6 (unknown line name). When \<open>start\<close> or \<open>end\<close> is not the name of a line of
  the template, the slicing raises \<open>LineNotFound\<close> and returns no template and no span:
  the error carries the missing line (\<open>start\<close> when it is missing, else \<open>end\<close>), the
  current media query, the column count and the names of all lines of the template in
  order, and its message contains the missing line and ends with the joined names.
\<close>

theorem subGrid_line_not_found:
  assumes "start \<notin> set (map name template) \<or> end' \<notin> set (map name template)"
  shows "let line = (if start \<notin> set (map name template) then start else end');
             err = LineNotFound line currentMdq columnCount (map name template)
         in subGrid template currentMdq columnCount (Some start) (Some end') = Inl err \<and>
            (\<exists>pre mid. message err = pre @ line @ mid @ join '' | '' (map name template))"
proof -
  let ?names = "map name template"
  let ?line = "if start \<notin> set ?names then start else end'"
  let ?err = "LineNotFound ?line currentMdq columnCount ?names"
  have si: "findIndex (\<lambda>col. Some (name col) = Some start) template = -1 \<longleftrightarrow>
            start \<notin> set ?names"
    using indexOf_mem [of ?names start] by (auto simp: findIndex_name)
  have ei: "findIndex (\<lambda>col. Some (name col) = Some end') template = -1 \<longleftrightarrow>
            end' \<notin> set ?names"
    using indexOf_mem [of ?names end'] by (auto simp: findIndex_name)
  have thrown: "subGrid template currentMdq columnCount (Some start) (Some end') = Inl ?err"
    using assms unfolding subGrid_def Let_def si ei
    by (auto simp: template_str_def)
  have "message ?err =
          (header @ [CHR 0x0A, CHR 0x0A] @ ''The grid line '' @ [CHR 0x60]) @ ?line @
          ([CHR 0x60] @ '' does not exist in the '' @ currentMdq @ '' media query which has '' @
           show_int columnCount @ '' columns.'' @ [CHR 0x0A] @ ''Grid lines for '' @
           currentMdq @ '': '') @ join '' | '' ?names"
    by simp
  then have "\<exists>pre mid. message ?err = pre @ ?line @ mid @ join '' | '' ?names"
    by blast
  with thrown show ?thesis
    by (simp add: Let_def)
qed

theorem subGrid_line_not_found_witness:
  "subGrid (projr (gridTemplateForMdq 4294967295 4 ''w'')) ''md'' 4 (Some ''content-2'') (Some ''content-8'') =
     Inl (LineNotFound ''content-8'' ''md'' 4
            [''full-start'', ''content-start'', ''content-2'', ''content-3'', ''content-4'',
             ''content-end'', ''full-end'']) \<and>
   message (LineNotFound ''content-8'' ''md'' 4
            [''full-start'', ''content-start'', ''content-2'', ''content-3'', ''content-4'',
             ''content-end'', ''full-end'']) =
     header @ [CHR 0x0A, CHR 0x0A] @
     ''The grid line `content-8` does not exist in the md media query which has 4 columns.'' @
     [CHR 0x0A] @
     ''Grid lines for md: full-start | content-start | content-2 | content-3 | content-4 | content-end | full-end''"
proof -
  have m: "show_int 4 = ''4''"
    by (simp add: show_int_def show_nat.simps digit_def)
  from subGrid_line_not_found
         [of "''content-2''" "projr (gridTemplateForMdq 4294967295 4 ''w'')" "''content-8''" "''md''" 4]
  show ?thesis
    by (simp add: template4 Let_def m)
qed


section \<open>Required values of the component\<close>

text \<open>The default configuration at \<open>sm\<close>: four columns and gap \<open>4\<close> from \<open>base\<close>,
  and the user's span of \<open>base\<close>.\<close>

lemma Hug_example:
  "Hug 4294967295
     \<lparr>config_hug = None, breakpoints_keys = Some [''base'', ''sm'', ''md'', ''lg'', ''xl'']\<rparr>
     (\<lambda>scale token. token) (\<lambda>bps. Some ''sm'')
     (Some [''base'' \<mapsto> [''content-start'', ''content-3'']]) =
   Inr \<lparr>display = ''grid'', gap = ''4'',
        grid = \<lparr>gridTemplateColumns =
                  ''[content-start] minmax(0, calc(calc(calc(container.xl - 4) / 4) - 4))'' @
                  [CHR 0x0A] @
                  ''[content-2] minmax(0, calc(calc(calc(container.xl - 4) / 4) - 4))'' @
                  [CHR 0x0A] @ ''[content-3]'',
                gridColumn = Some ''content-start / content-3''\<rparr>\<rparr>"
  by code_simp

lemma Hug_gap_falsy:
  assumes "useBreakpointValue (breakpointsOf th) = Some mdq" and "mdq \<noteq> []"
    and "getClosestValue truthy_string (gaps (hugConfigOf th)) mdq (breakpointsOf th) None = g"
    and "\<not> truthy_opt truthy_string g"
  shows "Hug maxLength th useToken useBreakpointValue hugGrid = Inl CantGetGapToken"
  using assms
  by (simp add: Hug_def Let_def truthy_opt_def truthy_string_def template_str_def)

lemma Hug_columns_falsy:
  assumes "useBreakpointValue (breakpointsOf th) = Some mdq" and "mdq \<noteq> []"
    and "truthy_opt truthy_string
           (getClosestValue truthy_string (gaps (hugConfigOf th)) mdq (breakpointsOf th) None)"
    and "getClosestValue truthy_number (columns (hugConfigOf th)) mdq (breakpointsOf th) None = c"
    and "\<not> truthy_opt truthy_number c"
  shows "Hug maxLength th useToken useBreakpointValue hugGrid = Inl CantGetColumns"
  using assms
  by (simp add: Hug_def Let_def truthy_opt_def truthy_string_def template_str_def)

text \<open>
  Claim C8 (required structural values escalate). With a current breakpoint at hand:
  when the gap token resolves to \<open>undefined\<close>, \<open>Hug\<close> throws the gap-token error; when
  the gap token is fine and the column count resolves to \<open>undefined\<close>, \<open>Hug\<close> throws the
  column-count error; and whenever the column count resolves to \<open>undefined\<close>, \<open>Hug\<close>
  throws one of the two. Both lookups are made without a fallback, and no props are
  produced.
\<close>

theorem Hug_absent_required:
  assumes "useBreakpointValue (breakpointsOf th) = Some mdq" and "mdq \<noteq> []"
  shows "(getClosestValue truthy_string (gaps (hugConfigOf th)) mdq (breakpointsOf th) None = None
            \<longrightarrow> Hug maxLength th useToken useBreakpointValue hugGrid = Inl CantGetGapToken) \<and>
         (truthy_opt truthy_string
            (getClosestValue truthy_string (gaps (hugConfigOf th)) mdq (breakpointsOf th) None) \<and>
          getClosestValue truthy_number (columns (hugConfigOf th)) mdq (breakpointsOf th) None = None
            \<longrightarrow> Hug maxLength th useToken useBreakpointValue hugGrid = Inl CantGetColumns) \<and>
         (getClosestValue truthy_number (columns (hugConfigOf th)) mdq (breakpointsOf th) None = None
            \<longrightarrow> Hug maxLength th useToken useBreakpointValue hugGrid = Inl CantGetGapToken \<or>
                Hug maxLength th useToken useBreakpointValue hugGrid = Inl CantGetColumns)"
proof -
  let ?gap = "getClosestValue truthy_string (gaps (hugConfigOf th)) mdq (breakpointsOf th) None"
  let ?cols = "getClosestValue truthy_number (columns (hugConfigOf th)) mdq (breakpointsOf th) None"
  let ?hug = "Hug maxLength th useToken useBreakpointValue hugGrid"
  have none_s: "\<not> truthy_opt truthy_string None" and none_n: "\<not> truthy_opt truthy_number None"
    by (simp_all add: truthy_opt_def)
  have a: "?hug = Inl CantGetGapToken" if "?gap = None"
    using assms that none_s by (rule Hug_gap_falsy)
  have b: "?hug = Inl CantGetColumns" if "truthy_opt truthy_string ?gap" and "?cols = None"
    using assms that none_n by (rule Hug_columns_falsy)
  have c: "?hug = Inl CantGetGapToken" if "\<not> truthy_opt truthy_string ?gap"
    using assms refl that by (rule Hug_gap_falsy)
  from a b c show ?thesis by blast
qed

theorem Hug_absent_required_witness:
  "Hug 4294967295 \<lparr>config_hug = Some \<lparr>layoutMax = ''container.xl'', gaps = [''md'' \<mapsto> ''8''],
                           columns = [''base'' \<mapsto> 4]\<rparr>,
        breakpoints_keys = Some [''base'', ''md'']\<rparr>
     (\<lambda>scale token. token) (\<lambda>bps. Some ''base'') None = Inl CantGetGapToken \<and>
   Hug 4294967295 \<lparr>config_hug = Some \<lparr>layoutMax = ''container.xl'', gaps = [''base'' \<mapsto> ''4''],
                           columns = [''md'' \<mapsto> 8]\<rparr>,
        breakpoints_keys = Some [''base'', ''md'']\<rparr>
     (\<lambda>scale token. token) (\<lambda>bps. Some ''base'') None = Inl CantGetColumns"
proof -
  let ?t1 = "\<lparr>config_hug = Some \<lparr>layoutMax = ''container.xl'', gaps = [''md'' \<mapsto> ''8''],
                           columns = [''base'' \<mapsto> 4]\<rparr>,
        breakpoints_keys = Some [''base'', ''md'']\<rparr>"
  let ?t2 = "\<lparr>config_hug = Some \<lparr>layoutMax = ''container.xl'', gaps = [''base'' \<mapsto> ''4''],
                           columns = [''md'' \<mapsto> 8]\<rparr>,
        breakpoints_keys = Some [''base'', ''md'']\<rparr>"
  have g1: "getClosestValue truthy_string [''md'' \<mapsto> ''8''] ''base'' [''base'', ''md''] None = None"
    by (simp add: getClosestValue_def indexOf_def getClosestValue_loop.simps key_at_def at_def
                  template_str_def truthy_opt_def)
  have g2: "getClosestValue truthy_string [''base'' \<mapsto> ''4''] ''base'' [''base'', ''md''] None = Some ''4''"
    by (simp add: getClosestValue_def)
  have c2: "getClosestValue truthy_number [''md'' \<mapsto> (8::int)] ''base'' [''base'', ''md''] None = None"
    by (simp add: getClosestValue_def indexOf_def getClosestValue_loop.simps key_at_def at_def
                  template_str_def truthy_opt_def)
  from Hug_absent_required [of "\<lambda>bps. Some ''base''" ?t1 "''base''" 4294967295
                               "\<lambda>scale token. token" None]
       Hug_absent_required [of "\<lambda>bps. Some ''base''" ?t2 "''base''" 4294967295
                               "\<lambda>scale token. token" None]
  show ?thesis
    by (simp add: hugConfigOf_def breakpointsOf_def g1 g2 c2 truthy_opt_def truthy_string_def)
qed

text \<open>
  Claim C9 (falsy resolved values are rejected too). With a current breakpoint at hand:
  when the gap token resolves to the empty string, \<open>Hug\<close> throws the gap-token error;
  when the gap token is fine and the column count resolves to \<open>0\<close>, \<open>Hug\<close> throws the
  column-count error. These are the errors of the \<open>undefined\<close> case. In the witness both
  falsy values are exact matches at the current breakpoint.
\<close>

theorem Hug_falsy_required:
  assumes "useBreakpointValue (breakpointsOf th) = Some mdq" and "mdq \<noteq> []"
  shows "(getClosestValue truthy_string (gaps (hugConfigOf th)) mdq (breakpointsOf th) None = Some []
            \<longrightarrow> Hug maxLength th useToken useBreakpointValue hugGrid = Inl CantGetGapToken) \<and>
         (truthy_opt truthy_string
            (getClosestValue truthy_string (gaps (hugConfigOf th)) mdq (breakpointsOf th) None) \<and>
          getClosestValue truthy_number (columns (hugConfigOf th)) mdq (breakpointsOf th) None = Some 0
            \<longrightarrow> Hug maxLength th useToken useBreakpointValue hugGrid = Inl CantGetColumns)"
proof -
  let ?gap = "getClosestValue truthy_string (gaps (hugConfigOf th)) mdq (breakpointsOf th) None"
  let ?cols = "getClosestValue truthy_number (columns (hugConfigOf th)) mdq (breakpointsOf th) None"
  let ?hug = "Hug maxLength th useToken useBreakpointValue hugGrid"
  have empty: "\<not> truthy_opt truthy_string (Some [])"
    by (simp add: truthy_opt_def truthy_string_def)
  have zero: "\<not> truthy_opt truthy_number (Some 0)"
    by (simp add: truthy_opt_def truthy_number_def)
  have a: "?hug = Inl CantGetGapToken" if "?gap = Some []"
    using assms that empty by (rule Hug_gap_falsy)
  have b: "?hug = Inl CantGetColumns" if "truthy_opt truthy_string ?gap" and "?cols = Some 0"
    using assms that zero by (rule Hug_columns_falsy)
  from a b show ?thesis by blast
qed

theorem Hug_falsy_required_witness:
  "Hug 4294967295 \<lparr>config_hug = Some \<lparr>layoutMax = ''container.xl'', gaps = [''base'' \<mapsto> ''''],
                           columns = [''base'' \<mapsto> 4]\<rparr>,
        breakpoints_keys = Some [''base'', ''md'']\<rparr>
     (\<lambda>scale token. token) (\<lambda>bps. Some ''base'') None = Inl CantGetGapToken \<and>
   Hug 4294967295 \<lparr>config_hug = Some \<lparr>layoutMax = ''container.xl'', gaps = [''base'' \<mapsto> ''4''],
                           columns = [''base'' \<mapsto> 0]\<rparr>,
        breakpoints_keys = Some [''base'', ''md'']\<rparr>
     (\<lambda>scale token. token) (\<lambda>bps. Some ''base'') None = Inl CantGetColumns"
proof -
  let ?t1 = "\<lparr>config_hug = Some \<lparr>layoutMax = ''container.xl'', gaps = [''base'' \<mapsto> ''''],
                           columns = [''base'' \<mapsto> 4]\<rparr>,
        breakpoints_keys = Some [''base'', ''md'']\<rparr>"
  let ?t2 = "\<lparr>config_hug = Some \<lparr>layoutMax = ''container.xl'', gaps = [''base'' \<mapsto> ''4''],
                           columns = [''base'' \<mapsto> 0]\<rparr>,
        breakpoints_keys = Some [''base'', ''md'']\<rparr>"
  from Hug_falsy_required [of "\<lambda>bps. Some ''base''" ?t1 "''base''" 4294967295
                              "\<lambda>scale token. token" None]
       Hug_falsy_required [of "\<lambda>bps. Some ''base''" ?t2 "''base''" 4294967295
                              "\<lambda>scale token. token" None]
  show ?thesis
    by (simp add: hugConfigOf_def breakpointsOf_def getClosestValue_def truthy_opt_def
                  truthy_string_def)
qed

end
